theory Spec2Isabelle
  imports Main "HOL-Library.Char_ord" "HOL-Library.List_Lexorder" "HOL-Library.Multiset"
begin

section \<open>The MONAI 201 notebook (2d_classification/monai_201.ipynb)\<close>

text \<open>
  The notebook is a straight-line Python program, one code cell after the other. Its own
  code builds configuration objects, selects the data directory, sorts the class
  directory names and prints the first predictions; everything else is a call into an
  external component (the standard library, numpy, torch, ignite, MONAI). The embedding
  keeps the two apart:
  \<^item> the objects the notebook constructs are records and datatypes holding exactly the
    arguments the source passes (an argument the source leaves to its default is
    \<open>None\<close>);
  \<^item> every external call is a field of the record \<open>externals\<close>: a function on an
    abstract world \<open>'w\<close> (file system, devices, network) that returns either an error
    or a value, together with the world it leaves behind;
  \<^item> the notebook threads a state (the world and the lines it has printed) through
    the calls; an exception ends the run and keeps the effects made so far.
  Building a configuration object (a transform, a data loader, a handler, an engine) is
  the construction of a value; loading a dataset, placing the network on the device and
  running an engine are calls.
  Strings are byte strings (UTF-8); their order is the lexicographic order on character
  codes, which is Python's order on \<open>str\<close>.
\<close>

subsection \<open>Errors and results\<close>

datatype error = ValueError | IndexError | TypeError | Raised string

record 'w state =
  world :: 'w
  printed :: "string list"

type_synonym ('a, 'w) run = "'w state \<Rightarrow> (error + 'a) \<times> 'w state"

definition return :: "'a \<Rightarrow> ('a, 'w) run" where
  "return a s = (Inr a, s)"

definition raise :: "error \<Rightarrow> ('a, 'w) run" where
  "raise e s = (Inl e, s)"

text \<open>Sequencing of two statements: an exception of the first skips the second.\<close>

definition seq :: "('a, 'w) run \<Rightarrow> ('a \<Rightarrow> ('b, 'w) run) \<Rightarrow> ('b, 'w) run" where
  "seq m f s = (case m s of (Inl e, s') \<Rightarrow> (Inl e, s') | (Inr a, s') \<Rightarrow> f a s')"

text \<open>An external call acts on the world and leaves the printed lines alone.\<close>

definition call :: "('w \<Rightarrow> (error + 'a) \<times> 'w) \<Rightarrow> ('a, 'w) run" where
  "call f s = (case f (world s) of (r, w') \<Rightarrow> (r, s\<lparr>world := w'\<rparr>))"

text \<open>\<^verbatim>\<open>print(a)\<close> of the notebook's own code.\<close>

definition print :: "string \<Rightarrow> (unit, 'w) run" where
  "print l s = (Inr (), s\<lparr>printed := printed s @ [l]\<rparr>)"

subsection \<open>The objects the notebook constructs\<close>

datatype transform =
    LoadImageD string bool
  | EnsureChannelFirstD string
  | ScaleIntensityD string
  | AsDiscreted string bool
  | Compose "transform list"

text \<open>\<^verbatim>\<open>MedNISTDataset(root_dir=, transform=, section=, download=, runtime_cache=)\<close>\<close>

record mednist =
  root_dir :: string
  transform :: transform
  section' :: string
  download :: bool
  runtime_cache :: "bool option"

text \<open>\<^verbatim>\<open>densenet121(spatial_dims=2, in_channels=1, out_channels=6).to("cuda:0")\<close>\<close>

record densenet121 =
  spatial_dims :: nat
  in_channels :: nat
  out_channels :: nat
  to_device :: string

text \<open>\<^verbatim>\<open>DataLoader(data, batch_size=, shuffle=, num_workers=)\<close>\<close>

record data_loader =
  data :: mednist
  batch_size :: nat
  shuffle :: "bool option"
  num_workers :: nat

text \<open>\<^verbatim>\<open>from_engine(keys, first=)\<close>, and the lambda \<^verbatim>\<open>lambda batch: batch[0]["image"].meta\<close>.\<close>

datatype output_transform = from_engine "string list" "bool option"

datatype batch_transform = batch_item_meta nat string

datatype metric = Accuracy output_transform

datatype inferer = SimpleInferer

text \<open>\<^verbatim>\<open>torch.optim.Adam(model.parameters(), lr=1e-5)\<close>: the learning rate is kept as the literal.\<close>

datatype optimizer = Adam densenet121 string

datatype loss_function = CrossEntropyLoss

datatype handler =
    ValidationHandler evaluator bool nat
  | CheckpointSaver string "(string \<times> densenet121) list" nat bool string
  | StatsHandler "bool option"
  | TensorBoardStatsHandler "bool option" "string option" "output_transform option"
  | CheckpointLoader string "(string \<times> densenet121) list"
  | ClassificationSaver batch_transform output_transform
and evaluator =
    SupervisedEvaluator
      (device: string)
      (val_data_loader: data_loader)
      (network: densenet121)
      (inferer: inferer)
      (key_val_metric: "(string \<times> metric) list option")
      (postprocessing: "transform option")
      (val_handlers: "handler list")

record trainer =
  trainer_device :: string
  max_epochs :: nat
  train_data_loader :: data_loader
  trainer_network :: densenet121
  optimizer :: optimizer
  loss_function :: loss_function
  trainer_inferer :: inferer
  train_handlers :: "handler list"

text \<open>An entry of \<^verbatim>\<open>dataset_dir.iterdir()\<close>: its \<^verbatim>\<open>name\<close> and what \<^verbatim>\<open>is_dir()\<close> answers.\<close>

record dir_entry =
  name :: string
  is_dir :: bool

text \<open>
  What \<^verbatim>\<open>np.loadtxt(..., dtype=str)\<close> answers: an array of strings of dimension 0, 1
  or 2 (with the default \<^verbatim>\<open>ndmin=0\<close> the array is squeezed, so that the rows of the
  file are the rows of the array only when the array has two dimensions).
\<close>

datatype ndarray = Array0 string | Array1 "string list" | Array2 "string list list"

subsection \<open>The external components\<close>

text \<open>
  One field per external call the notebook makes, in the order of their first use.
  A shell escape (\<^verbatim>\<open>!cmd\<close>) raises nothing in Python, whatever the command does.
  \<open>int_float s\<close> is \<^verbatim>\<open>int(float(s))\<close> of the Python built-ins.
\<close>

record 'w externals =
  shell :: "string \<Rightarrow> 'w \<Rightarrow> 'w"
  print_config :: "'w \<Rightarrow> (error + unit) \<times> 'w"
  mkdtemp :: "'w \<Rightarrow> (error + string) \<times> 'w"
  MedNISTDataset :: "mednist \<Rightarrow> 'w \<Rightarrow> (error + unit) \<times> 'w"
  densenet121_to :: "densenet121 \<Rightarrow> 'w \<Rightarrow> (error + unit) \<times> 'w"
  basicConfig :: "'w \<Rightarrow> (error + unit) \<times> 'w"
  trainer_run :: "trainer \<Rightarrow> 'w \<Rightarrow> (error + unit) \<times> 'w"
  iterdir :: "string list \<Rightarrow> 'w \<Rightarrow> (error + dir_entry list) \<times> 'w"
  evaluator_run :: "evaluator \<Rightarrow> 'w \<Rightarrow> (error + unit) \<times> 'w"
  loadtxt :: "string \<Rightarrow> string \<Rightarrow> 'w \<Rightarrow> (error + ndarray) \<times> 'w"
  int_float :: "string \<Rightarrow> error + int"

subsection \<open>Cell: setup environment, setup imports\<close>

text \<open>\<^verbatim>\<open>!python -c "import monai" || pip install -q "monai-weekly[ignite, tqdm, tensorboard]"\<close>\<close>

definition shell_command :: string where
  \<open>shell_command =
     ''python -c "import monai" || '' @
     ''pip install -q "monai-weekly[ignite, tqdm, tensorboard]"''\<close>

definition cell_setup :: "'w externals \<Rightarrow> (unit, 'w) run" where
  "cell_setup ext = call (\<lambda>w. (Inr (), shell ext shell_command w))"

text \<open>The import statements bind names only; the cell's one call is \<^verbatim>\<open>print_config()\<close>.\<close>

definition cell_imports :: "'w externals \<Rightarrow> (unit, 'w) run" where
  "cell_imports ext = call (print_config ext)"

subsection \<open>Cell: setup data directory\<close>

text \<open>
  \<^verbatim>\<open>
  directory = os.environ.get("MONAI_DATA_DIRECTORY")
  root_dir = tempfile.mkdtemp() if directory is None else directory
  print(root_dir)
  \<close>
  The environment is a map from variable names to values.
\<close>

definition cell_data_directory ::
  "'w externals \<Rightarrow> (string \<rightharpoonup> string) \<Rightarrow> (string, 'w) run" where
  "cell_data_directory ext environ =
     (let directory = environ ''MONAI_DATA_DIRECTORY'' in
      seq (case directory of None \<Rightarrow> call (mkdtemp ext) | Some d \<Rightarrow> return d)
        (\<lambda>root. seq (print root) (\<lambda>_. return root)))"

subsection \<open>Cell: datasets\<close>

definition the_transform :: transform where
  "the_transform =
     Compose [LoadImageD ''image'' True, EnsureChannelFirstD ''image'',
              ScaleIntensityD ''image'']"

definition dataset :: "string \<Rightarrow> mednist" where
  "dataset root =
     \<lparr>root_dir = root, transform = the_transform, section' = ''training'',
      download = True, runtime_cache = None\<rparr>"

definition valdata :: "string \<Rightarrow> mednist" where
  "valdata root =
     \<lparr>root_dir = root, transform = the_transform, section' = ''validation'',
      download = False, runtime_cache = None\<rparr>"

definition cell_datasets :: "'w externals \<Rightarrow> string \<Rightarrow> (unit, 'w) run" where
  "cell_datasets ext root =
     seq (call (MedNISTDataset ext (dataset root)))
       (\<lambda>_. call (MedNISTDataset ext (valdata root)))"

subsection \<open>Cell: network, validation evaluator and trainer\<close>

definition save_interval :: nat where
  "save_interval = 2"

definition out_dir :: string where
  "out_dir = ''./eval''"

definition model :: densenet121 where
  "model = \<lparr>spatial_dims = 2, in_channels = 1, out_channels = 6, to_device = ''cuda:0''\<rparr>"

definition val_evaluator :: "string \<Rightarrow> evaluator" where
  "val_evaluator root =
     SupervisedEvaluator ''cuda:0''
       \<lparr>data = valdata root, batch_size = 512, shuffle = Some False, num_workers = 4\<rparr>
       model
       SimpleInferer
       (Some [(''val_acc'', Accuracy (from_engine [''pred'', ''label''] None))])
       None
       [StatsHandler (Some False), TensorBoardStatsHandler (Some False) None None]"

definition the_trainer :: "string \<Rightarrow> trainer" where
  "the_trainer root =
     \<lparr>trainer_device = ''cuda:0'',
      max_epochs = 5,
      train_data_loader =
        \<lparr>data = dataset root, batch_size = 512, shuffle = Some True, num_workers = 4\<rparr>,
      trainer_network = model,
      optimizer = Adam model ''1e-5'',
      loss_function = CrossEntropyLoss,
      trainer_inferer = SimpleInferer,
      train_handlers =
        [ValidationHandler (val_evaluator root) True 1,
         CheckpointSaver out_dir [(''model'', model)] save_interval True ''checkpoint.pt'',
         StatsHandler None,
         TensorBoardStatsHandler None (Some ''train_loss'')
           (Some (from_engine [''loss''] (Some True)))]\<rparr>"

definition cell_define :: "'w externals \<Rightarrow> (unit, 'w) run" where
  "cell_define ext =
     seq (call (densenet121_to ext model)) (\<lambda>_. call (basicConfig ext))"

subsection \<open>Cell: run the training\<close>

definition cell_train :: "'w externals \<Rightarrow> string \<Rightarrow> (unit, 'w) run" where
  "cell_train ext root = call (trainer_run ext (the_trainer root))"

subsection \<open>Cell: class names and test dataset\<close>

text \<open>
  \<^verbatim>\<open>
  dataset_dir = Path(root_dir, "MedNIST")
  class_names = sorted(f"{x.name}" for x in dataset_dir.iterdir() if x.is_dir())
  testdata = MedNISTDataset(root_dir=root_dir, transform=transform, section="test",
                            download=False, runtime_cache=True)
  \<close>
  A path is the list of the segments given to \<^verbatim>\<open>Path\<close>.
\<close>

definition dataset_dir :: "string \<Rightarrow> string list" where
  "dataset_dir root = [root, ''MedNIST'']"

definition class_names :: "dir_entry list \<Rightarrow> string list" where
  "class_names entries = sort (map name (filter is_dir entries))"

definition testdata :: "string \<Rightarrow> mednist" where
  "testdata root =
     \<lparr>root_dir = root, transform = the_transform, section' = ''test'',
      download = False, runtime_cache = Some True\<rparr>"

definition cell_test_data :: "'w externals \<Rightarrow> string \<Rightarrow> (string list, 'w) run" where
  "cell_test_data ext root =
     seq (call (iterdir ext (dataset_dir root)))
       (\<lambda>entries. seq (call (MedNISTDataset ext (testdata root)))
         (\<lambda>_. return (class_names entries)))"

subsection \<open>Cell: inference\<close>

definition inference_evaluator :: "string \<Rightarrow> evaluator" where
  "inference_evaluator root =
     SupervisedEvaluator ''cuda:0''
       \<lparr>data = testdata root, batch_size = 1, shuffle = None, num_workers = 0\<rparr>
       model
       SimpleInferer
       None
       (Some (AsDiscreted ''pred'' True))
       [CheckpointLoader (out_dir @ ''/checkpoint.pt'') [(''model'', model)],
        ClassificationSaver (batch_item_meta 0 ''image'') (from_engine [''pred''] None)]"

definition cell_inference :: "'w externals \<Rightarrow> string \<Rightarrow> (unit, 'w) run" where
  "cell_inference ext root = call (evaluator_run ext (inference_evaluator root))"

subsection \<open>Cell: print the first predictions\<close>

text \<open>
  \<^verbatim>\<open>
  max_items_to_print = 10
  for fn, idx in np.loadtxt("./predictions.csv", delimiter=",", dtype=str):
      print(fn, class_names[int(float(idx))])
      max_items_to_print -= 1
      if max_items_to_print == 0:
          break
  \<close>
  Iterating over an array of dimension 0 raises TypeError; the items of an array of
  dimension 1 are its strings, those of an array of dimension 2 are its rows. Unpacking
  an item into \<^verbatim>\<open>fn, idx\<close> raises ValueError unless the item has exactly two
  elements: two entries when it is a row, two characters when it is a string. Python's
  list indexing counts a negative index from the end and raises IndexError out of
  range.
\<close>

datatype item = Str string | Row "string list"

fun iterate :: "ndarray \<Rightarrow> error + item list" where
  "iterate (Array0 x) = Inl TypeError"
| "iterate (Array1 xs) = Inr (map Str xs)"
| "iterate (Array2 rows) = Inr (map Row rows)"

text \<open>
  The characters of a string: in UTF-8 a byte from 128 to 191 continues the character
  that the bytes before it began.
\<close>

definition continuation :: "char \<Rightarrow> bool" where
  "continuation c = (128 \<le> (of_char c :: nat) \<and> (of_char c :: nat) < 192)"

fun characters :: "string \<Rightarrow> string list" where
  "characters [] = []"
| "characters (c # cs) =
     (case characters cs of
        [] \<Rightarrow> [[c]]
      | [] # gs \<Rightarrow> [c] # gs
      | (b # g) # gs \<Rightarrow>
          if continuation b then (c # b # g) # gs else [c] # (b # g) # gs)"

fun unpack :: "item \<Rightarrow> error + string \<times> string" where
  "unpack (Str s) =
     (case characters s of [fn, idx] \<Rightarrow> Inr (fn, idx) | _ \<Rightarrow> Inl ValueError)"
| "unpack (Row r) =
     (case r of [fn, idx] \<Rightarrow> Inr (fn, idx) | _ \<Rightarrow> Inl ValueError)"

definition getitem :: "'a list \<Rightarrow> int \<Rightarrow> error + 'a" where
  "getitem xs i =
     (if 0 \<le> i \<and> i < int (length xs) then Inr (xs ! nat i)
      else if - int (length xs) \<le> i \<and> i < 0 then Inr (xs ! nat (int (length xs) + i))
      else Inl IndexError)"

definition print_row :: "'w externals \<Rightarrow> string list \<Rightarrow> item \<Rightarrow> (unit, 'w) run" where
  "print_row ext cn it =
     (case unpack it of
        Inl e \<Rightarrow> raise e
      | Inr (fn, idx) \<Rightarrow>
          (case int_float ext idx of
             Inl e \<Rightarrow> raise e
           | Inr i \<Rightarrow>
               (case getitem cn i of
                  Inl e \<Rightarrow> raise e
                | Inr c \<Rightarrow> print (fn @ '' '' @ c))))"

fun print_loop ::
  "'w externals \<Rightarrow> string list \<Rightarrow> int \<Rightarrow> item list \<Rightarrow> (unit, 'w) run" where
  "print_loop ext cn max_items_to_print [] = return ()"
| "print_loop ext cn max_items_to_print (it # items) =
     seq (print_row ext cn it)
       (\<lambda>_. if max_items_to_print - 1 = 0 then return ()
            else print_loop ext cn (max_items_to_print - 1) items)"

definition cell_print :: "'w externals \<Rightarrow> string list \<Rightarrow> (unit, 'w) run" where
  "cell_print ext cn =
     seq (call (loadtxt ext ''./predictions.csv'' '',''))
       (\<lambda>arr. case iterate arr of
                Inl e \<Rightarrow> raise e
              | Inr items \<Rightarrow> print_loop ext cn 10 items)"

subsection \<open>The notebook, run from the first cell to the last\<close>

definition notebook :: "'w externals \<Rightarrow> (string \<rightharpoonup> string) \<Rightarrow> (unit, 'w) run" where
  "notebook ext environ =
     seq (cell_setup ext) (\<lambda>_.
     seq (cell_imports ext) (\<lambda>_.
     seq (cell_data_directory ext environ) (\<lambda>root.
     seq (cell_datasets ext root) (\<lambda>_.
     seq (cell_define ext) (\<lambda>_.
     seq (cell_train ext root) (\<lambda>_.
     seq (cell_test_data ext root) (\<lambda>cn.
     seq (cell_inference ext root) (\<lambda>_.
     cell_print ext cn))))))))"


subsection \<open>Observing a run: the external components as a recorder\<close>

text \<open>
  To speak about the order of the calls, the world is instantiated with the list of the
  external calls made so far. Every component appends its call; it answers the value
  given for it, or raises the given error when it is the call number \<open>k\<close> of the run
  (counted from 0) and a fault \<open>Some (k, e)\<close> is planted. A shell escape is recorded
  and cannot raise.
\<close>

datatype call_event =
    Shell string
  | PrintConfig
  | Mkdtemp
  | MedNISTDatasetInit mednist
  | Densenet121To densenet121
  | BasicConfig
  | TrainerRun trainer
  | Iterdir "string list"
  | EvaluatorRun evaluator
  | Loadtxt string string

definition record_call ::
  "(nat \<times> error) option \<Rightarrow> call_event \<Rightarrow> 'a \<Rightarrow> call_event list
     \<Rightarrow> (error + 'a) \<times> call_event list" where
  "record_call fault c a w =
     (case fault of
        None \<Rightarrow> (Inr a, w @ [c])
      | Some (k, e) \<Rightarrow> if length w = k then (Inl e, w @ [c]) else (Inr a, w @ [c]))"

definition recording ::
  "(nat \<times> error) option \<Rightarrow> string \<Rightarrow> dir_entry list \<Rightarrow> ndarray
     \<Rightarrow> (string \<Rightarrow> error + int) \<Rightarrow> call_event list externals" where
  "recording fault tmp entries arr conv =
     \<lparr>shell = (\<lambda>c w. w @ [Shell c]),
      print_config = record_call fault PrintConfig (),
      mkdtemp = record_call fault Mkdtemp tmp,
      MedNISTDataset = (\<lambda>d. record_call fault (MedNISTDatasetInit d) ()),
      densenet121_to = (\<lambda>m. record_call fault (Densenet121To m) ()),
      basicConfig = record_call fault BasicConfig (),
      trainer_run = (\<lambda>t. record_call fault (TrainerRun t) ()),
      iterdir = (\<lambda>p. record_call fault (Iterdir p) entries),
      evaluator_run = (\<lambda>ev. record_call fault (EvaluatorRun ev) ()),
      loadtxt = (\<lambda>p d. record_call fault (Loadtxt p d) arr),
      int_float = conv\<rparr>"

text \<open>The state a run starts from: nothing called, nothing printed.\<close>

definition start :: "call_event list state" where
  "start = \<lparr>world = [], printed = []\<rparr>"

text \<open>The calls of a run in which no component raises, for the data directory \<open>rd\<close>.\<close>

definition calls_from_datasets :: "string \<Rightarrow> call_event list" where
  "calls_from_datasets rd =
     [MedNISTDatasetInit (dataset rd),
      MedNISTDatasetInit (valdata rd),
      Densenet121To model,
      BasicConfig,
      TrainerRun (the_trainer rd),
      Iterdir (dataset_dir rd),
      MedNISTDatasetInit (testdata rd),
      EvaluatorRun (inference_evaluator rd),
      Loadtxt ''./predictions.csv'' '','']"

definition full_run :: "(string \<rightharpoonup> string) \<Rightarrow> string \<Rightarrow> call_event list" where
  "full_run environ tmp =
     (case environ ''MONAI_DATA_DIRECTORY'' of
        None \<Rightarrow> [Shell shell_command, PrintConfig, Mkdtemp] @ calls_from_datasets tmp
      | Some d \<Rightarrow> [Shell shell_command, PrintConfig] @ calls_from_datasets d)"

subsection \<open>The last cell as a function of what it is given\<close>

text \<open>
  What the body of the loop does with one item, and what a sequence of such outcomes
  amounts to: the lines before the first error, and that error if there is one.
\<close>

definition outcome :: "(string \<Rightarrow> error + int) \<Rightarrow> string list \<Rightarrow> item \<Rightarrow> error + string" where
  "outcome conv cn it =
     (case unpack it of
        Inl e \<Rightarrow> Inl e
      | Inr (fn, idx) \<Rightarrow>
          (case conv idx of
             Inl e \<Rightarrow> Inl e
           | Inr i \<Rightarrow>
               (case getitem cn i of
                  Inl e \<Rightarrow> Inl e
                | Inr c \<Rightarrow> Inr (fn @ '' '' @ c))))"

fun collect :: "(error + string) list \<Rightarrow> (error + unit) \<times> string list" where
  "collect [] = (Inr (), [])"
| "collect (Inl e # os) = (Inl e, [])"
| "collect (Inr l # os) = (case collect os of (r, ls) \<Rightarrow> (r, l # ls))"


subsection \<open>The cells before the inference\<close>

text \<open>The run up to the inference cell; it answers the data directory and the class names.\<close>

definition cells_before_inference ::
  "'w externals \<Rightarrow> (string \<rightharpoonup> string) \<Rightarrow> (string \<times> string list, 'w) run" where
  "cells_before_inference ext environ =
     seq (cell_setup ext) (\<lambda>_.
     seq (cell_imports ext) (\<lambda>_.
     seq (cell_data_directory ext environ) (\<lambda>root.
     seq (cell_datasets ext root) (\<lambda>_.
     seq (cell_define ext) (\<lambda>_.
     seq (cell_train ext root) (\<lambda>_.
     seq (cell_test_data ext root) (\<lambda>cn.
     return (root, cn))))))))"

subsection \<open>Components over a disk\<close>

text \<open>
  For the claims about files the world is the set of the paths that exist on disk, and
  the components are arbitrary but for two properties that a theorem may assume of them:
  \<^item> \<open>reads_need_the_file\<close>: \<^verbatim>\<open>np.loadtxt\<close> raises when its file does not exist,
    and leaves the disk as it is;
  \<^item> \<open>checkpoint_loader_raises\<close>: an evaluator with a \<^verbatim>\<open>CheckpointLoader\<close> handler
    raises when the file at the handler's \<^verbatim>\<open>load_path\<close> does not exist (the notebook's
    text: the handlers "load the checkpoint file, providing an error if any file is
    unavailable").
\<close>

definition reads_need_the_file :: "string set externals \<Rightarrow> bool" where
  "reads_need_the_file ext =
     (\<forall>p d w. (p \<notin> w \<longrightarrow> (\<exists>e. fst (loadtxt ext p d w) = Inl e)) \<and>
              snd (loadtxt ext p d w) = w)"


text \<open>
  An example of such components, to run the notebook on a disk. What the real
  components write is not known from the notebook, so it is a parameter: the trainer
  leaves the files \<open>saved\<close>, an evaluator leaves the files \<open>exported\<close>, and nothing
  else is written. An evaluator raises unless every file that one of its
  \<^verbatim>\<open>CheckpointLoader\<close> handlers names is on disk, and \<^verbatim>\<open>np.loadtxt\<close> raises unless its
  file is.
\<close>

fun loaded_from :: "handler \<Rightarrow> string list" where
  "loaded_from (CheckpointLoader load_path load_dict) = [load_path]"
| "loaded_from h = []"

definition on_disk ::
  "string \<Rightarrow> dir_entry list \<Rightarrow> ndarray \<Rightarrow> (string \<Rightarrow> error + int) \<Rightarrow> string set
     \<Rightarrow> string set \<Rightarrow> string set externals" where
  "on_disk tmp entries arr conv saved exported =
     \<lparr>shell = (\<lambda>c w. w),
      print_config = (\<lambda>w. (Inr (), w)),
      mkdtemp = (\<lambda>w. (Inr tmp, w)),
      MedNISTDataset = (\<lambda>d w. (Inr (), w)),
      densenet121_to = (\<lambda>m w. (Inr (), w)),
      basicConfig = (\<lambda>w. (Inr (), w)),
      trainer_run = (\<lambda>t w. (Inr (), w \<union> saved)),
      iterdir = (\<lambda>p w. (Inr entries, w)),
      evaluator_run =
        (\<lambda>ev w. if list_all (\<lambda>p. p \<in> w) (concat (map loaded_from (val_handlers ev)))
                then (Inr (), w \<union> exported)
                else (Inl (Raised ''checkpoint unavailable''), w)),
      loadtxt =
        (\<lambda>p d w. if p \<in> w then (Inr arr, w) else (Inl (Raised ''file not found''), w)),
      int_float = conv\<rparr>"

subsection \<open>Alphabetical order\<close>



subsection \<open>Sample data\<close>

text \<open>
  A listing of the MedNIST directory (in no particular order, with a plain file among
  the class directories), an array of two rows of predictions, and
  \<^verbatim>\<open>int(float(s))\<close> on the index columns.
\<close>

definition mednist_entries :: "dir_entry list" where
  "mednist_entries =
     [\<lparr>name = ''Hand'', is_dir = True\<rparr>,
      \<lparr>name = ''ChestCT'', is_dir = True\<rparr>,
      \<lparr>name = ''README.md'', is_dir = False\<rparr>,
      \<lparr>name = ''AbdomenCT'', is_dir = True\<rparr>,
      \<lparr>name = ''HeadCT'', is_dir = True\<rparr>,
      \<lparr>name = ''CXR'', is_dir = True\<rparr>,
      \<lparr>name = ''BreastMRI'', is_dir = True\<rparr>]"

definition sample_array :: ndarray where
  "sample_array =
     Array2
       [[''/workspace/Data/MedNIST/CXR/007398.jpeg'', ''2.0''],
        [''/workspace/Data/MedNIST/Hand/005663.jpeg'', ''4.0'']]"

definition sample_int_float :: "string \<Rightarrow> error + int" where
  "sample_int_float x =
     (if x = ''2.0'' then Inr 2 else if x = ''4.0'' then Inr 4 else Inl ValueError)"

section \<open>Properties\<close>

subsection \<open>Sequencing, calls and the print loop\<close>

lemma record_call_None [simp]: "record_call None c a w = (Inr a, w @ [c])"
  by (simp add: record_call_def)

lemma print_row_cases:
  "(\<exists>e. print_row ext cn row s = (Inl e, s)) \<or>
   (\<exists>l. print_row ext cn row s = (Inr (), s\<lparr>printed := printed s @ [l]\<rparr>))"
  by (auto simp: print_row_def raise_def print_def split: sum.splits prod.splits)

lemma world_print_row [simp]: "world (snd (print_row ext cn row s)) = world s"
  using print_row_cases [of ext cn row s] by auto

lemma world_print_loop [simp]: "world (snd (print_loop ext cn k rows s)) = world s"
proof (induction rows arbitrary: k s)
  case Nil
  show ?case by (simp add: return_def)
next
  case (Cons row rows)
  from print_row_cases [of ext cn row s] show ?case
  proof (elim disjE exE)
    fix e assume "print_row ext cn row s = (Inl e, s)"
    then show ?thesis by (simp add: seq_def)
  next
    fix l assume "print_row ext cn row s = (Inr (), s\<lparr>printed := printed s @ [l]\<rparr>)"
    then show ?thesis using Cons.IH by (simp add: seq_def return_def)
  qed
qed

lemma world_cell_print:
  "world (snd (cell_print ext cn s)) = snd (loadtxt ext ''./predictions.csv'' '','' (world s))"
  by (cases "loadtxt ext ''./predictions.csv'' '','' (world s)")
     (auto simp: cell_print_def seq_def call_def raise_def split: sum.splits)

text \<open>The calls of a run in which no component raises.\<close>

lemma notebook_calls:
  "world (snd (notebook (recording None tmp entries rows conv) environ start)) =
     full_run environ tmp"
  by (cases "environ ''MONAI_DATA_DIRECTORY''")
     (simp_all add: notebook_def cell_setup_def cell_imports_def cell_data_directory_def
       cell_datasets_def cell_define_def cell_train_def cell_test_data_def cell_inference_def
       seq_def call_def return_def print_def world_cell_print recording_def start_def
       full_run_def calls_from_datasets_def)

subsection \<open>The data directory\<close>

text \<open>
  Claim C4. The data root directory is selected by the environment variable
  \<^verbatim>\<open>MONAI_DATA_DIRECTORY\<close>. If it is set to \<open>d\<close>, the cell answers \<open>d\<close>, prints it
  and calls nothing, so the world is untouched. If it is not set, the cell calls
  \<^verbatim>\<open>tempfile.mkdtemp()\<close> and answers and prints the directory that call created
  (and when that call raises, so does the cell, with nothing printed). The value
  answered is the \<^verbatim>\<open>root_dir\<close> of the three datasets and the parent of the class
  directories.
\<close>

theorem data_directory_from_environment:
  "(environ ''MONAI_DATA_DIRECTORY'' = Some d \<longrightarrow>
      cell_data_directory ext environ s = (Inr d, s\<lparr>printed := printed s @ [d]\<rparr>)) \<and>
   (environ ''MONAI_DATA_DIRECTORY'' = None \<longrightarrow>
      mkdtemp ext (world s) = (Inr t, w') \<longrightarrow>
      cell_data_directory ext environ s =
        (Inr t, s\<lparr>world := w', printed := printed s @ [t]\<rparr>)) \<and>
   (environ ''MONAI_DATA_DIRECTORY'' = None \<longrightarrow>
      mkdtemp ext (world s) = (Inl e, w') \<longrightarrow>
      cell_data_directory ext environ s = (Inl e, s\<lparr>world := w'\<rparr>)) \<and>
   root_dir (dataset r) = r \<and> root_dir (valdata r) = r \<and> root_dir (testdata r) = r \<and>
   dataset_dir r = [r, ''MedNIST'']"
  by (simp add: cell_data_directory_def seq_def call_def return_def print_def
      dataset_def valdata_def testdata_def dataset_dir_def)

theorem data_directory_from_environment_witness:
  "cell_data_directory (recording None ''/tmp/tmpab12'' [] (Array2 []) (\<lambda>x. Inr 0))
     [''MONAI_DATA_DIRECTORY'' \<mapsto> ''/workspace/Data''] start =
     (Inr ''/workspace/Data'', \<lparr>world = [], printed = [''/workspace/Data'']\<rparr>) \<and>
   cell_data_directory (recording None ''/tmp/tmpab12'' [] (Array2 []) (\<lambda>x. Inr 0))
     Map.empty start =
     (Inr ''/tmp/tmpab12'', \<lparr>world = [Mkdtemp], printed = [''/tmp/tmpab12'']\<rparr>) \<and>
   cell_data_directory
     (recording (Some (0, Raised ''OSError'')) ''/tmp/tmpab12'' [] (Array2 []) (\<lambda>x. Inr 0))
     Map.empty start =
     (Inl (Raised ''OSError''), \<lparr>world = [Mkdtemp], printed = []\<rparr>)"
  using
    data_directory_from_environment
      [of "[''MONAI_DATA_DIRECTORY'' \<mapsto> ''/workspace/Data'']" "''/workspace/Data''"
          "recording None ''/tmp/tmpab12'' [] (Array2 []) (\<lambda>x. Inr 0)" start]
    data_directory_from_environment
      [of Map.empty _ "recording None ''/tmp/tmpab12'' [] (Array2 []) (\<lambda>x. Inr 0)" start
          "''/tmp/tmpab12''" "[Mkdtemp]"]
    data_directory_from_environment
      [of Map.empty _
          "recording (Some (0, Raised ''OSError'')) ''/tmp/tmpab12'' [] (Array2 []) (\<lambda>x. Inr 0)"
          start _ "[Mkdtemp]" "Raised ''OSError''"]
  by (simp add: recording_def record_call_def start_def)

subsection \<open>The hyperparameters\<close>

text \<open>
  Claim C5. In every run the trainer that is run is \<open>the_trainer rd\<close> and the
  evaluator run for the inference is \<open>inference_evaluator rd\<close>, the validation
  evaluator being the validator of the trainer's first handler, where \<open>rd\<close> is the
  data directory, the only value they take from the input of the run. Whatever the
  data directory, the hyperparameters are the constants written in the notebook: 5
  epochs, a checkpoint save interval of 2 (the value the trainer's checkpoint saver is
  built with), batch size 512 for the training and the validation loader, and batch
  size 1 for the test loader.
\<close>

theorem hyperparameters_fixed:
  "(let rd = (case environ ''MONAI_DATA_DIRECTORY'' of None \<Rightarrow> tmp | Some d \<Rightarrow> d);
        calls = world (snd (notebook (recording None tmp entries rows conv) environ start))
    in TrainerRun (the_trainer rd) \<in> set calls \<and>
       EvaluatorRun (inference_evaluator rd) \<in> set calls \<and>
       train_handlers (the_trainer rd) ! 0 = ValidationHandler (val_evaluator rd) True 1) \<and>
   max_epochs (the_trainer r) = 5 \<and>
   save_interval = 2 \<and>
   train_handlers (the_trainer r) ! 1 =
     CheckpointSaver ''./eval'' [(''model'', model)] 2 True ''checkpoint.pt'' \<and>
   batch_size (train_data_loader (the_trainer r)) = 512 \<and>
   data (train_data_loader (the_trainer r)) = dataset r \<and>
   batch_size (val_data_loader (val_evaluator r)) = 512 \<and>
   data (val_data_loader (val_evaluator r)) = valdata r \<and>
   batch_size (val_data_loader (inference_evaluator r)) = 1 \<and>
   data (val_data_loader (inference_evaluator r)) = testdata r"
proof -
  have "TrainerRun (the_trainer rd) \<in> set (full_run environ tmp) \<and>
        EvaluatorRun (inference_evaluator rd) \<in> set (full_run environ tmp)"
    if "rd = (case environ ''MONAI_DATA_DIRECTORY'' of None \<Rightarrow> tmp | Some d \<Rightarrow> d)" for rd
    using that by (simp add: full_run_def calls_from_datasets_def split: option.split)
  then show ?thesis
    by (simp add: notebook_calls Let_def the_trainer_def save_interval_def out_dir_def
        val_evaluator_def inference_evaluator_def)
qed


subsection \<open>The handlers as configured\<close>

text \<open>
  The trainer's second handler saves the final model under the path that the inference
  evaluator's first handler loads, both for the entry \<^verbatim>\<open>"model"\<close> of the one network
  that the trainer and both evaluators share.
\<close>

lemma checkpoint_saved_where_loaded:
  "train_handlers (the_trainer r) ! 1 =
     CheckpointSaver ''./eval'' [(''model'', model)] 2 True ''checkpoint.pt'' \<and>
   val_handlers (inference_evaluator r) ! 0 =
     CheckpointLoader ''./eval/checkpoint.pt'' [(''model'', model)] \<and>
   trainer_network (the_trainer r) = model \<and>
   network (val_evaluator r) = model \<and>
   network (inference_evaluator r) = model"
  by (simp add: the_trainer_def inference_evaluator_def val_evaluator_def out_dir_def
      save_interval_def)

text \<open>
  The trainer's first handler validates at epoch level with interval 1, on a loader
  built without shuffling; the network has 6 output channels and the inference
  evaluator post-processes with an argmax, on a loader of batch size 1 without workers.
\<close>

lemma validation_and_inference_configured:
  "train_handlers (the_trainer r) ! 0 = ValidationHandler (val_evaluator r) True 1 \<and>
   shuffle (val_data_loader (val_evaluator r)) = Some False \<and>
   out_channels model = 6 \<and>
   postprocessing (inference_evaluator r) = Some (AsDiscreted ''pred'' True) \<and>
   shuffle (val_data_loader (inference_evaluator r)) = None \<and>
   num_workers (val_data_loader (inference_evaluator r)) = 0"
  by (simp add: the_trainer_def inference_evaluator_def val_evaluator_def model_def)

subsection \<open>The order of the calls\<close>

text \<open>
  Claim C8 (as amended). The calls of a run come in one fixed order. After the setup
  (shell escape, \<^verbatim>\<open>print_config()\<close>, and \<^verbatim>\<open>mkdtemp()\<close> when the variable is not
  set), the training section is loaded with a download requested, then the validation
  section with the download disabled; the network is placed on the device;
  \<^verbatim>\<open>trainer.run()\<close> follows. Only after the training are the class directories
  listed and the test section loaded, with the download disabled; then comes the
  inference \<^verbatim>\<open>evaluator.run()\<close>, and last the predictions file is read back.
\<close>

theorem notebook_call_order:
  "world (snd (notebook (recording None tmp entries rows conv) environ start)) =
     [Shell shell_command, PrintConfig] @
     (case environ ''MONAI_DATA_DIRECTORY'' of None \<Rightarrow> [Mkdtemp] | Some d \<Rightarrow> []) @
     (let rd = (case environ ''MONAI_DATA_DIRECTORY'' of None \<Rightarrow> tmp | Some d \<Rightarrow> d) in
      [MedNISTDatasetInit (dataset rd),
       MedNISTDatasetInit (valdata rd),
       Densenet121To model,
       BasicConfig,
       TrainerRun (the_trainer rd),
       Iterdir (dataset_dir rd),
       MedNISTDatasetInit (testdata rd),
       EvaluatorRun (inference_evaluator rd),
       Loadtxt ''./predictions.csv'' '','']) \<and>
   section' (dataset r) = ''training'' \<and> download (dataset r) \<and>
   section' (valdata r) = ''validation'' \<and> \<not> download (valdata r) \<and>
   section' (testdata r) = ''test'' \<and> \<not> download (testdata r)"
  by (simp add: notebook_calls full_run_def calls_from_datasets_def dataset_def valdata_def
      testdata_def split: option.split)

text \<open>
  Claim C8 as stated puts the loading of the test section into the first step, before
  the training. With \<^verbatim>\<open>MONAI_DATA_DIRECTORY=/workspace/Data\<close> the test section is not
  among the calls that precede \<^verbatim>\<open>trainer.run()\<close>: the training is call number 6 and
  the test section is loaded as call number 8.
\<close>

theorem test_section_loaded_after_training:
  "MedNISTDatasetInit (testdata ''/workspace/Data'') \<notin>
     set (takeWhile (\<lambda>c. c \<noteq> TrainerRun (the_trainer ''/workspace/Data''))
       (world (snd (notebook (recording None ''/tmp/tmpab12'' [] (Array2 []) (\<lambda>x. Inr 0))
          [''MONAI_DATA_DIRECTORY'' \<mapsto> ''/workspace/Data''] start)))) \<and>
   world (snd (notebook (recording None ''/tmp/tmpab12'' [] (Array2 []) (\<lambda>x. Inr 0))
          [''MONAI_DATA_DIRECTORY'' \<mapsto> ''/workspace/Data''] start)) ! 6 =
     TrainerRun (the_trainer ''/workspace/Data'') \<and>
   world (snd (notebook (recording None ''/tmp/tmpab12'' [] (Array2 []) (\<lambda>x. Inr 0))
          [''MONAI_DATA_DIRECTORY'' \<mapsto> ''/workspace/Data''] start)) ! 8 =
     MedNISTDatasetInit (testdata ''/workspace/Data'')"
  by (simp add: notebook_calls full_run_def calls_from_datasets_def dataset_def valdata_def
      testdata_def)

subsection \<open>The last cell\<close>

lemma print_row_outcome:
  "print_row ext cn it s =
     (case outcome (int_float ext) cn it of
        Inl e \<Rightarrow> (Inl e, s)
      | Inr l \<Rightarrow> (Inr (), s\<lparr>printed := printed s @ [l]\<rparr>))"
  by (simp add: print_row_def outcome_def raise_def print_def split: sum.splits prod.splits)

lemma take_items:
  "1 \<le> n \<Longrightarrow> take (nat n) (it # items) = it # take (nat (n - 1)) items"
  by (cases "nat n") (simp_all add: nat_diff_distrib')

lemma print_loop_collect:
  "1 \<le> n \<Longrightarrow>
   print_loop ext cn n items s =
     (case collect (map (outcome (int_float ext) cn) (take (nat n) items)) of
        (r, ls) \<Rightarrow> (r, s\<lparr>printed := printed s @ ls\<rparr>))"
proof (induction items arbitrary: n s)
  case Nil
  show ?case by (simp add: return_def)
next
  case (Cons it items)
  note tk = take_items [OF Cons.prems, of it items]
  show ?case
  proof (cases "outcome (int_float ext) cn it")
    case (Inl e)
    then show ?thesis by (simp add: tk seq_def print_row_outcome)
  next
    case (Inr l)
    show ?thesis
    proof (cases "n - 1 = 0")
      case True
      with Inr show ?thesis by (simp add: tk seq_def print_row_outcome return_def)
    next
      case False
      with Cons.prems have "1 \<le> n - 1" by simp
      from Cons.IH [OF this] Inr False show ?thesis
        by (simp add: tk seq_def print_row_outcome split: prod.splits)
    qed
  qed
qed







lemma cell_print_eq:
  "cell_print ext cn s =
     (case loadtxt ext ''./predictions.csv'' '','' (world s) of
        (Inl e, w') \<Rightarrow> (Inl e, s\<lparr>world := w'\<rparr>)
      | (Inr arr, w') \<Rightarrow>
          (case iterate arr of
             Inl e \<Rightarrow> (Inl e, s\<lparr>world := w'\<rparr>)
           | Inr items \<Rightarrow>
               (case collect (map (outcome (int_float ext) cn) (take 10 items)) of
                  (r, ls) \<Rightarrow> (r, s\<lparr>world := w', printed := printed s @ ls\<rparr>))))"
  using print_loop_collect [of 10 ext cn]
  by (simp add: cell_print_def seq_def call_def raise_def split: sum.splits prod.splits)


lemma notebook_split:
  "notebook ext environ =
     seq (cells_before_inference ext environ)
       (\<lambda>(rd, cn). seq (cell_inference ext rd) (\<lambda>_. cell_print ext cn))"
  by (rule ext)
     (simp add: notebook_def cells_before_inference_def seq_def return_def
       split: prod.splits sum.splits)

lemma seq_completes:
  "seq m f s = (Inr b, s') \<Longrightarrow> \<exists>a s1. m s = (Inr a, s1) \<and> f a s1 = (Inr b, s')"
  by (auto simp: seq_def split: prod.splits sum.splits)

lemma completed_run_read_predictions:
  assumes "reads_need_the_file ext" and "notebook ext environ s = (Inr u, s')"
  shows "''./predictions.csv'' \<in> world s'"
proof -
  from assms(2) obtain p s1 where
    "(case p of (rd, cn) \<Rightarrow> seq (cell_inference ext rd) (\<lambda>_. cell_print ext cn)) s1 = (Inr u, s')"
    unfolding notebook_split by (blast dest: seq_completes)
  then obtain cn s2 where cp: "cell_print ext cn s2 = (Inr u, s')"
    by (cases p) (auto dest: seq_completes)
  obtain r w' where l: "loadtxt ext ''./predictions.csv'' '','' (world s2) = (r, w')"
    by (cases "loadtxt ext ''./predictions.csv'' '','' (world s2)")
  with cp obtain arr where r: "r = Inr arr"
    by (cases r) (simp_all add: cell_print_eq)
  from assms(1) l r have "''./predictions.csv'' \<in> world s2" and "w' = world s2"
    unfolding reads_need_the_file_def by (metis fst_conv sum.distinct(1), metis snd_conv)
  moreover from cp l have "world s' = w'"
    using world_cell_print [of ext cn s2] by simp
  ultimately show ?thesis by simp
qed





subsection \<open>The predictions and the class names\<close>







subsection \<open>Errors\<close>












subsection \<open>What a run leaves on disk\<close>

lemma reads_on_disk: "reads_need_the_file (on_disk tmp entries arr conv saved exported)"
  by (simp add: reads_need_the_file_def on_disk_def)

lemma on_disk_run:
  "notebook
     (on_disk ''/tmp/tmpab12'' mednist_entries sample_array sample_int_float
        {''./eval/checkpoint.pt''} {''./predictions.csv''})
     Map.empty \<lparr>world = {}, printed = []\<rparr> =
     (Inr (),
      \<lparr>world = {''./eval/checkpoint.pt'', ''./predictions.csv''},
       printed = [''/tmp/tmpab12'', ''/workspace/Data/MedNIST/CXR/007398.jpeg CXR'',
                  ''/workspace/Data/MedNIST/Hand/005663.jpeg Hand'']\<rparr>)"
  by (simp add: notebook_def cell_setup_def cell_imports_def cell_data_directory_def
       cell_datasets_def cell_define_def cell_train_def cell_test_data_def cell_inference_def
       seq_def call_def return_def print_def cell_print_eq on_disk_def
       inference_evaluator_def out_dir_def sample_array_def sample_int_float_def
       outcome_def getitem_def class_names_def mednist_entries_def insert_commute)

text \<open>
  Claim C6 (as amended). Beyond the framework's own checkpoint file, a run lays out at
  least one other file on disk, the predictions file: given that \<^verbatim>\<open>np.loadtxt\<close>
  raises when its file does not exist (and leaves the disk as it is), every run that
  completes ends with \<^verbatim>\<open>./predictions.csv\<close> on disk, which is not the checkpoint file
  \<^verbatim>\<open>./eval/checkpoint.pt\<close>; when the file was not there before the run, the disk after
  the run is not the disk before it with at most the checkpoint file added.
\<close>

theorem predictions_file_left_on_disk:
  assumes "reads_need_the_file ext" and "notebook ext environ s = (Inr (), s')"
  shows "''./predictions.csv'' \<in> world s' \<and>
         ''./predictions.csv'' \<noteq> out_dir @ ''/checkpoint.pt'' \<and>
         (''./predictions.csv'' \<notin> world s \<longrightarrow>
            \<not> world s' \<subseteq> world s \<union> {out_dir @ ''/checkpoint.pt''})"
  using completed_run_read_predictions [OF assms] by (auto simp: out_dir_def)

theorem predictions_file_left_on_disk_witness:
  "''./predictions.csv'' \<in>
     world (snd (notebook
       (on_disk ''/tmp/tmpab12'' mednist_entries sample_array sample_int_float
          {''./eval/checkpoint.pt''} {''./predictions.csv''})
       Map.empty \<lparr>world = {}, printed = []\<rparr>)) \<and>
   \<not> world (snd (notebook
       (on_disk ''/tmp/tmpab12'' mednist_entries sample_array sample_int_float
          {''./eval/checkpoint.pt''} {''./predictions.csv''})
       Map.empty \<lparr>world = {}, printed = []\<rparr>)) \<subseteq> {} \<union> {out_dir @ ''/checkpoint.pt''}"
  using predictions_file_left_on_disk
    [OF reads_on_disk on_disk_run [unfolded insert_commute]]
  by (simp add: on_disk_run)

text \<open>
  Claim C6 as stated says that no file other than the checkpoint file is laid out on
  disk. It fails for the run of the example components on an empty disk, and whatever
  the components do, no run that completes on an empty disk ends with at most the
  checkpoint file on disk.
\<close>

theorem another_file_is_laid_out:
  "\<not> (\<forall>(ext :: string set externals) environ s s'.
        reads_need_the_file ext \<longrightarrow> notebook ext environ s = (Inr (), s') \<longrightarrow>
        world s' \<subseteq> world s \<union> {out_dir @ ''/checkpoint.pt''}) \<and>
   \<not> (\<exists>(ext :: string set externals) environ s'.
        reads_need_the_file ext \<and>
        notebook ext environ \<lparr>world = {}, printed = []\<rparr> = (Inr (), s') \<and>
        world s' \<subseteq> {out_dir @ ''/checkpoint.pt''})"
proof (intro conjI notI)
  assume a: "\<forall>(ext :: string set externals) environ s s'.
        reads_need_the_file ext \<longrightarrow> notebook ext environ s = (Inr (), s') \<longrightarrow>
        world s' \<subseteq> world s \<union> {out_dir @ ''/checkpoint.pt''}"
  from a [rule_format, OF reads_on_disk on_disk_run] show False
    by (simp add: out_dir_def)
next
  assume "\<exists>(ext :: string set externals) environ s'.
        reads_need_the_file ext \<and>
        notebook ext environ \<lparr>world = {}, printed = []\<rparr> = (Inr (), s') \<and>
        world s' \<subseteq> {out_dir @ ''/checkpoint.pt''}"
  then obtain ext :: "string set externals" and environ s' where
    r: "reads_need_the_file ext"
    and n: "notebook ext environ \<lparr>world = {}, printed = []\<rparr> = (Inr (), s')"
    and w: "world s' \<subseteq> {out_dir @ ''/checkpoint.pt''}"
    by blast
  from completed_run_read_predictions [OF r n] w show False
    by (auto simp: out_dir_def)
qed

end
